theory Spec2Isabelle
  imports Main
begin

section \<open>JavaScript values and string operations\<close>

text \<open>
  The sheet helpers are TypeScript; at run time their fields are JavaScript values.
  Numbers are modelled by their integer values (ids, counts and millisecond time stamps
  are integers), with \<open>NaN\<close> as a value of its own. A sheet cell is a string, or absent
  when the row returned by the service is shorter than the column asked for.
\<close>

datatype jsval = JUndefined | JNaN | JNum int | JStr string | JBool bool | JArr "string list"

text \<open>JavaScript truthiness, as \<open>||\<close>, \<open>&&\<close>, \<open>?:\<close> and \<open>if\<close> test it.\<close>

fun truthy :: "jsval \<Rightarrow> bool" where
  "truthy JUndefined = False"
| "truthy JNaN = False"
| "truthy (JNum n) = (n \<noteq> 0)"
| "truthy (JStr s) = (s \<noteq> [])"
| "truthy (JBool b) = b"
| "truthy (JArr xs) = True"

text \<open>\<open>a || b\<close> on values.\<close>

definition jsOr :: "jsval \<Rightarrow> jsval \<Rightarrow> jsval" where
  "jsOr a b = (if truthy a then a else b)"

text \<open>
  \<open>a !== b\<close>: \<open>NaN\<close> differs from everything, itself included; two arrays are compared
  by identity, and the arrays met here always belong to different objects.
\<close>

fun strictNeq :: "jsval \<Rightarrow> jsval \<Rightarrow> bool" where
  "strictNeq JNaN b = True"
| "strictNeq a JNaN = True"
| "strictNeq (JArr xs) b = True"
| "strictNeq a (JArr ys) = True"
| "strictNeq a b = (a \<noteq> b)"

definition isWhiteSpace :: "char \<Rightarrow> bool" where
  "isWhiteSpace c = (c \<in> set [CHR '' '', CHR 0x09, CHR 0x0A, CHR 0x0B, CHR 0x0C, CHR 0x0D])"

text \<open>\<open>String.prototype.trim\<close> (white space of the ASCII range).\<close>

definition trim :: "string \<Rightarrow> string" where
  "trim s = rev (dropWhile isWhiteSpace (rev (dropWhile isWhiteSpace s)))"

text \<open>\<open>s.split(sep)\<close> for a one-character separator: never empty, \<open>''''.split\<close> is \<open>['''']\<close>.\<close>

fun split :: "char \<Rightarrow> string \<Rightarrow> string list" where
  "split sep [] = [[]]"
| "split sep (c # cs) =
     (if c = sep then [] # split sep cs
      else (case split sep cs of [] \<Rightarrow> [[c]] | p # ps \<Rightarrow> (c # p) # ps))"

text \<open>\<open>xs.join(sep)\<close>.\<close>

fun join :: "string \<Rightarrow> string list \<Rightarrow> string" where
  "join sep [] = []"
| "join sep [x] = x"
| "join sep (x # y # ys) = x @ sep @ join sep (y # ys)"



subsection \<open>Numbers and their decimal text\<close>

definition isDigit :: "char \<Rightarrow> bool" where
  "isDigit c = (48 \<le> (of_char c :: nat) \<and> (of_char c :: nat) \<le> 57)"

definition digitVal :: "char \<Rightarrow> nat" where
  "digitVal c = of_char c - 48"

definition digitChar :: "nat \<Rightarrow> char" where
  "digitChar d = char_of (48 + d)"

fun showNat :: "nat \<Rightarrow> string" where
  "showNat n = (if n < 10 then [digitChar n] else showNat (n div 10) @ [digitChar (n mod 10)])"

declare showNat.simps [simp del]

text \<open>\<open>n.toString()\<close> of an integer-valued number.\<close>

definition showInt :: "int \<Rightarrow> string" where
  "showInt i = (if i < 0 then CHR ''-'' # showNat (nat (- i)) else showNat (nat i))"

definition readDigits :: "string \<Rightarrow> nat" where
  "readDigits s = fold (\<lambda>c n. 10 * n + digitVal c) s 0"

definition unsignedDecimal :: "string \<Rightarrow> int option" where
  "unsignedDecimal s = (if s \<noteq> [] \<and> list_all isDigit s then Some (int (readDigits s)) else None)"

text \<open>
  \<open>Number(s)\<close> of a string: surrounding white space is dropped, the empty string is 0,
  a signed run of decimal digits is its value, and any other text is \<open>NaN\<close> (\<open>None\<close>).
  Texts with a fraction, an exponent or a radix prefix denote numbers outside the
  integer model; they are read as \<open>NaN\<close> here.
\<close>

definition stringToNumber :: "string \<Rightarrow> int option" where
  "stringToNumber s =
     (case trim s of
        [] \<Rightarrow> Some 0
      | c # r \<Rightarrow>
          if c = CHR ''-'' then map_option uminus (unsignedDecimal r)
          else if c = CHR ''+'' then unsignedDecimal r
          else unsignedDecimal (c # r))"

text \<open>\<open>Number(row[k])\<close>: an absent cell is \<open>undefined\<close>, and \<open>Number(undefined)\<close> is \<open>NaN\<close>.\<close>

definition toNumber :: "string option \<Rightarrow> int option" where
  "toNumber c = (case c of None \<Rightarrow> None | Some s \<Rightarrow> stringToNumber s)"



subsection \<open>Rows and cells\<close>

type_synonym row = "string list"

text \<open>\<open>row[k]\<close>: \<open>undefined\<close> (\<open>None\<close>) beyond the end of the row.\<close>

definition cell :: "row \<Rightarrow> nat \<Rightarrow> string option" where
  "cell r k = (if k < length r then Some (r ! k) else None)"

text \<open>\<open>row[k] || d\<close>: the default replaces an absent and an empty cell.\<close>

definition orElse :: "string option \<Rightarrow> string \<Rightarrow> string" where
  "orElse c d = (case c of None \<Rightarrow> d | Some s \<Rightarrow> if s = [] then d else s)"

section \<open>The clock\<close>

text \<open>
  Every evaluation of \<open>new Date().toISOString()\<close> reads the clock. A clock gives the
  ISO text read at each place of the program that reads it, by loop iteration where the
  place is inside a loop, so that no two readings are forced to agree. The \<open>Read\<close>
  sites are the three defaults of \<open>readBlogFromSheet\<close> (by row), the next three are
  in the loop of \<open>writeBlogToSheet\<close> (by position in the batch), the last two in
  \<open>addSingleBlog\<close>.
\<close>

datatype site =
    ReadDate nat | ReadCreatedAt nat | ReadUpdatedAt nat
  | ChangedUpdatedAt nat | NewCreatedAt nat | NewUpdatedAt nat
  | AddCreatedAt | AddUpdatedAt

type_synonym clock = "site \<Rightarrow> string"

text \<open>A clock that reads the same text at every site.\<close>

definition constClock :: "string \<Rightarrow> clock" where
  "constClock t = (\<lambda>s. t)"

text \<open>\<open>iso.split('T')[0]\<close>, the date part of an ISO time stamp.\<close>

definition isoDate :: "string \<Rightarrow> string" where
  "isoDate stamp = hd (split (CHR ''T'') stamp)"

section \<open>Blog posts (lib/blogSheetHelpers.ts)\<close>

definition BLOG_SHEET_NAME :: string where
  "BLOG_SHEET_NAME = ''blog''"

text \<open>
  The interface \<open>BlogPost\<close>. The fields \<open>id\<close> and \<open>image\<close> carry a prime, since HOL
  has constants of these names. \<open>status\<close> is a string: the reader casts the cell to
  the union type without checking it.
\<close>

record BlogPost =
  id' :: int
  title :: string
  excerpt :: string
  content :: string
  blogURL :: string
  authorName :: string
  authorBio :: string
  authorAvatar :: string
  tags :: "string list"
  image' :: string
  readTime :: string
  featured :: bool
  status :: string
  category :: string
  date :: string
  createdAt :: string
  updatedAt :: string

text \<open>\<open>row[8] ? row[8].split(',').map(tag => tag.trim()) : []\<close>.\<close>

definition parseTags :: "string option \<Rightarrow> string list" where
  "parseTags c =
     (case c of
        None \<Rightarrow> []
      | Some s \<Rightarrow> if s = [] then [] else map trim (split (CHR '','') s))"

text \<open>
  The function mapped over the rows in \<open>readBlogFromSheet\<close> (lines 36-54): the record
  of the row at position \<open>index\<close> (from 0) of the data rows.
\<close>

definition rowToBlog :: "clock \<Rightarrow> nat \<Rightarrow> row \<Rightarrow> BlogPost" where
  "rowToBlog clk index r =
     \<lparr> id' = (case toNumber (cell r 0) of
                None \<Rightarrow> int index + 1
              | Some n \<Rightarrow> if n = 0 then int index + 1 else n),
       title = orElse (cell r 1) [],
       excerpt = orElse (cell r 2) [],
       content = orElse (cell r 3) [],
       blogURL = orElse (cell r 4) [],
       authorName = orElse (cell r 5) [],
       authorBio = orElse (cell r 6) [],
       authorAvatar = orElse (cell r 7) [],
       tags = parseTags (cell r 8),
       image' = orElse (cell r 9) [],
       readTime = orElse (cell r 10) [],
       featured = (cell r 11 = Some ''true''),
       status = orElse (cell r 12) ''draft'',
       category = orElse (cell r 13) [],
       date = orElse (cell r 14) (isoDate (clk (ReadDate index))),
       createdAt = orElse (cell r 15) (clk (ReadCreatedAt index)),
       updatedAt = orElse (cell r 16) (clk (ReadUpdatedAt index)) \<rparr>"

text \<open>\<open>readBlogFromSheet\<close>, given the rows the service returns for \<open>blog!A2:Q\<close>.\<close>

definition readBlogFromSheet :: "clock \<Rightarrow> row list \<Rightarrow> BlogPost list" where
  "readBlogFromSheet clk rows = map (\<lambda>(index, r). rowToBlog clk index r) (enumerate 0 rows)"

text \<open>
  The \<open>values\<close> array written for a blog (lines 98-116 and 130-148). The service stores
  the number \<open>blog.id\<close> and returns its decimal text on the next read. \<open>blog.tags\<close>
  is an array by its type, so \<open>Array.isArray(blog.tags)\<close> holds and the tags are joined.
\<close>

definition blogToRow :: "BlogPost \<Rightarrow> row" where
  "blogToRow blog =
     [ showInt (id' blog), title blog, excerpt blog, content blog, blogURL blog,
       authorName blog, authorBio blog, authorAvatar blog,
       join '', '' (tags blog),
       image' blog, readTime blog,
       (if featured blog then ''true'' else ''false''),
       status blog, category blog, date blog, createdAt blog, updatedAt blog ]"


section \<open>Requests and results\<close>

text \<open>
  The helpers change the sheet only through requests to the spreadsheet service:
  \<open>values.update\<close> of the cells of one row of a tab, \<open>values.append\<close> of rows to a
  tab, and a \<open>batchUpdate\<close> with one \<open>deleteDimension\<close> of rows (sheet id, start
  and end index). A helper of the model returns the requests it issued, in order,
  together with what it returns or throws.
\<close>

datatype request =
    Update string nat row
  | Append string "row list"
  | DeleteRows nat int int



text \<open>
  The result objects: \<open>{ success }\<close>, \<open>{ success, updated, added }\<close> and
  \<open>{ success, id?, message? }\<close> (its \<open>id\<close> is \<open>resultId\<close> here).
\<close>

record status_result =
  success :: bool

record write_result = status_result +
  updated :: nat
  added :: nat


section \<open>Upsert, delete and insert of blog posts\<close>

text \<open>\<open>blog[field]\<close> for a field name given as a string.\<close>

definition getField :: "BlogPost \<Rightarrow> string \<Rightarrow> jsval" where
  "getField blog field =
     (if field = ''id'' then JNum (id' blog)
      else if field = ''title'' then JStr (title blog)
      else if field = ''excerpt'' then JStr (excerpt blog)
      else if field = ''content'' then JStr (content blog)
      else if field = ''blogURL'' then JStr (blogURL blog)
      else if field = ''authorName'' then JStr (authorName blog)
      else if field = ''authorBio'' then JStr (authorBio blog)
      else if field = ''authorAvatar'' then JStr (authorAvatar blog)
      else if field = ''tags'' then JArr (tags blog)
      else if field = ''image'' then JStr (image' blog)
      else if field = ''readTime'' then JStr (readTime blog)
      else if field = ''featured'' then JBool (featured blog)
      else if field = ''status'' then JStr (status blog)
      else if field = ''category'' then JStr (category blog)
      else if field = ''date'' then JStr (date blog)
      else if field = ''createdAt'' then JStr (createdAt blog)
      else if field = ''updatedAt'' then JStr (updatedAt blog)
      else JUndefined)"

definition fieldsToCompare :: "string list" where
  "fieldsToCompare =
     [ ''title'', ''excerpt'', ''content'', ''blogURL'', ''authorName'', ''authorBio'',
       ''authorAvatar'', ''image'', ''readTime'', ''featured'', ''status'', ''category'', ''date'' ]"

text \<open>
  \<open>hasBlogChanged\<close> (lines 169-186): \<open>some\<close> over the list of field names, with
  the branch for the name \<open>tags\<close> as the source has it.
\<close>

definition hasBlogChanged :: "BlogPost \<Rightarrow> BlogPost \<Rightarrow> bool" where
  "hasBlogChanged existing incoming =
     list_ex (\<lambda>field.
        if field = ''tags'' then join '', '' (tags existing) \<noteq> join '', '' (tags incoming)
        else strictNeq (jsOr (getField existing field) (JStr []))
                       (jsOr (getField incoming field) (JStr [])))
       fieldsToCompare"

text \<open>
  \<open>existingIds\<close> and \<open>existingBlogMap\<close> (lines 64-69): a set and a map keyed by
  \<open>blog.id.toString()\<close>. The map is built entry by entry (\<open>setEntry\<close> sets the entry
  of the blog at position \<open>index\<close>), so that of two rows with one id the later one
  stays. \<open>rowIndex\<close> is the row of the sheet, \<open>index + 2\<close>.
\<close>

definition existingIds :: "BlogPost list \<Rightarrow> string set" where
  "existingIds existingBlogs = set (map (\<lambda>blog. showInt (id' blog)) existingBlogs)"

definition setEntry :: "nat \<times> BlogPost \<Rightarrow> (string \<rightharpoonup> BlogPost \<times> nat) \<Rightarrow> (string \<rightharpoonup> BlogPost \<times> nat)" where
  "setEntry = (\<lambda>(index, blog) m. m(showInt (id' blog) \<mapsto> (blog, index + 2)))"

definition existingBlogMap :: "BlogPost list \<Rightarrow> (string \<rightharpoonup> BlogPost \<times> nat)" where
  "existingBlogMap existingBlogs = fold setEntry (enumerate 0 existingBlogs) Map.empty"

text \<open>
  The body of \<open>blogs.forEach\<close> (lines 75-92) on the blog at position \<open>j\<close> of the batch:
  it pushes to \<open>newBlogs\<close> or to \<open>updatedBlogs\<close>, or leaves both as they are.
\<close>

definition upsertStep ::
  "clock \<Rightarrow> string set \<Rightarrow> (string \<rightharpoonup> BlogPost \<times> nat) \<Rightarrow> nat \<times> BlogPost \<Rightarrow>
   BlogPost list \<times> (BlogPost \<times> nat) list \<Rightarrow> BlogPost list \<times> (BlogPost \<times> nat) list" where
  "upsertStep clk ids m = (\<lambda>(j, blog) (newBlogs, updatedBlogs).
     let blogId = showInt (id' blog) in
     if blogId \<in> ids then
       (case m blogId of
          None \<Rightarrow> (newBlogs, updatedBlogs)
        | Some (existing, rowIndex) \<Rightarrow>
            if hasBlogChanged existing blog
            then (newBlogs,
                  updatedBlogs @ [(blog\<lparr>updatedAt := clk (ChangedUpdatedAt j)\<rparr>, rowIndex)])
            else (newBlogs, updatedBlogs))
     else
       (newBlogs @
          [blog\<lparr>createdAt := (if createdAt blog = [] then clk (NewCreatedAt j) else createdAt blog),
                updatedAt := clk (NewUpdatedAt j)\<rparr>],
        updatedBlogs))"

text \<open>
  \<open>writeBlogToSheet\<close> (lines 57-166). \<open>rows\<close> are the data rows of the sheet, as the
  service returns them for \<open>blog!A2:Q\<close>.
\<close>

definition writeBlogToSheet :: "clock \<Rightarrow> row list \<Rightarrow> BlogPost list \<Rightarrow> request list \<times> write_result" where
  "writeBlogToSheet clk rows blogs =
     (let existingBlogs = readBlogFromSheet clk rows;
          ids = existingIds existingBlogs;
          m = existingBlogMap existingBlogs;
          (newBlogs, updatedBlogs) = fold (upsertStep clk ids m) (enumerate 0 blogs) ([], []);
          updates = map (\<lambda>(blog, rowIndex). Update BLOG_SHEET_NAME rowIndex (blogToRow blog))
                      updatedBlogs;
          appends = (if length newBlogs > 0
                     then [Append BLOG_SHEET_NAME (map blogToRow newBlogs)] else [])
      in (updates @ appends,
          \<lparr> success = True, updated = length updatedBlogs, added = length newBlogs \<rparr>))"




text \<open>
  The clock of a batch from which the record at position \<open>k\<close> is taken out: every later
  record reads what it read at its place in the longer batch.
\<close>

fun skipPosition :: "nat \<Rightarrow> site \<Rightarrow> site" where
  "skipPosition k (ChangedUpdatedAt j) = ChangedUpdatedAt (if j < k then j else Suc j)"
| "skipPosition k (NewCreatedAt j) = NewCreatedAt (if j < k then j else Suc j)"
| "skipPosition k (NewUpdatedAt j) = NewUpdatedAt (if j < k then j else Suc j)"
| "skipPosition k s = s"

section \<open>Drives (lib/driveSheetHelpers.ts)\<close>

text \<open>
  A drive is built field by field under the names of the header row (\<open>const drive: any = {}\<close>)
  and merged by object spread, so it is modelled as an object: a map from property names
  to values. \<open>null\<close> is not a value of the model (the type \<open>DriveData\<close> excludes it).
\<close>

type_synonym obj = "string \<rightharpoonup> jsval"









text \<open>A clock of \<open>Date.now()\<close> that reads the same number everywhere.\<close>

definition constClockMs :: "int \<Rightarrow> nat \<Rightarrow> nat \<Rightarrow> int" where
  "constClockMs t = (\<lambda>rowIndex index. t)"










section \<open>The running banner (RunningBanner)\<close>


text \<open>\<open>event.detail\<close> of an \<open>adminDataUpdate\<close> event: its \<open>section\<close> and its \<open>data\<close>.\<close>

record detail =
  detail_section :: string
  detail_data :: "obj list"




text \<open>The steps of the rotation state machine, and a run of them from a state.\<close>

datatype step = Tick | AdminDataUpdate detail




section \<open>Decimal text, trimming, splitting and joining\<close>

lemma constClock_apply [simp]: "constClock t s = t"
  by (simp add: constClock_def)

lemma constClockMs_apply [simp]: "constClockMs t rowIndex index = t"
  by (simp add: constClockMs_def)

lemma digitVal_digitChar: "d < 10 \<Longrightarrow> digitVal (digitChar d) = d"
  by (simp add: digitVal_def digitChar_def)

lemma isDigit_digitChar: "d < 10 \<Longrightarrow> isDigit (digitChar d)"
  by (simp add: isDigit_def digitChar_def)

lemma showNat_nonempty: "showNat n \<noteq> []"
  by (subst showNat.simps) simp

lemma showNat_digits: "list_all isDigit (showNat n)"
proof (induction n rule: showNat.induct)
  case (1 n)
  show ?case
  proof (cases "n < 10")
    case True
    then show ?thesis by (subst showNat.simps) (simp add: isDigit_digitChar)
  next
    case False
    with 1 show ?thesis by (subst showNat.simps) (simp add: isDigit_digitChar)
  qed
qed

lemma readDigits_snoc: "readDigits (s @ [c]) = 10 * readDigits s + digitVal c"
  by (simp add: readDigits_def)

lemma readDigits_showNat: "readDigits (showNat n) = n"
proof (induction n rule: showNat.induct)
  case (1 n)
  show ?case
  proof (cases "n < 10")
    case True
    then show ?thesis by (subst showNat.simps) (simp add: readDigits_def digitVal_digitChar)
  next
    case False
    with 1 show ?thesis
      by (subst showNat.simps) (simp add: readDigits_snoc digitVal_digitChar)
  qed
qed

lemma isDigit_not_space: "isDigit c \<Longrightarrow> \<not> isWhiteSpace c"
  by (auto simp: isDigit_def isWhiteSpace_def)

lemma isDigit_not_sign: "isDigit c \<Longrightarrow> c \<noteq> CHR ''-'' \<and> c \<noteq> CHR ''+''"
  by (auto simp: isDigit_def)

lemma dropWhile_hd: "s = [] \<or> \<not> P (hd s) \<Longrightarrow> dropWhile P s = s"
  by (cases s) auto

lemma trim_id:
  assumes "s \<noteq> []" "\<not> isWhiteSpace (hd s)" "\<not> isWhiteSpace (last s)"
  shows "trim s = s"
proof -
  have a: "dropWhile isWhiteSpace s = s"
    using assms by (simp add: dropWhile_hd)
  have "hd (rev s) = last s"
    using assms(1) by (simp add: hd_rev)
  then have b: "dropWhile isWhiteSpace (rev s) = rev s"
    using assms by (simp add: dropWhile_hd)
  show ?thesis by (simp add: trim_def a b)
qed

lemma unsignedDecimal_showNat: "unsignedDecimal (showNat n) = Some (int n)"
  by (simp add: unsignedDecimal_def showNat_nonempty showNat_digits readDigits_showNat)

lemma showNat_ends: "isDigit (hd (showNat n)) \<and> isDigit (last (showNat n))"
  using showNat_digits [of n] showNat_nonempty [of n]
  by (cases "showNat n") (auto simp: list_all_iff)

lemma stringToNumber_showNat: "stringToNumber (showNat n) = Some (int n)"
proof -
  have t: "trim (showNat n) = showNat n"
    using showNat_ends [of n] by (intro trim_id) (auto simp: showNat_nonempty isDigit_not_space)
  obtain c r where cr: "showNat n = c # r"
    using showNat_nonempty [of n] by (cases "showNat n") auto
  with showNat_ends [of n] have "isDigit c" by simp
  then have "c \<noteq> CHR ''-''" "c \<noteq> CHR ''+''" using isDigit_not_sign by auto
  moreover have "trim (c # r) = c # r" using t cr by simp
  moreover have "unsignedDecimal (c # r) = Some (int n)"
    using unsignedDecimal_showNat [of n] cr by simp
  ultimately show ?thesis
    by (simp add: stringToNumber_def cr)
qed

text \<open>Reading the decimal text of an integer gives the integer back.\<close>

lemma stringToNumber_showInt: "stringToNumber (showInt i) = Some i"
proof (cases "i < 0")
  case False
  then show ?thesis by (simp add: showInt_def stringToNumber_showNat)
next
  case True
  let ?s = "CHR ''-'' # showNat (nat (- i))"
  have "last ?s = last (showNat (nat (- i)))" by (simp add: showNat_nonempty)
  then have "\<not> isWhiteSpace (last ?s)"
    using showNat_ends [of "nat (- i)"] by (simp add: isDigit_not_space)
  moreover have "\<not> isWhiteSpace (hd ?s)" by (simp add: isWhiteSpace_def)
  ultimately have t: "trim ?s = ?s" by (intro trim_id) auto
  show ?thesis
    using True by (simp add: showInt_def stringToNumber_def t unsignedDecimal_showNat)
qed

lemma showInt_inj: "showInt a = showInt b \<Longrightarrow> a = b"
  by (metis stringToNumber_showInt option.inject)

lemma split_nonempty: "split sep s \<noteq> []"
  by (induction s) (auto split: list.splits)














section \<open>Reading a row and writing it back\<close>











section \<open>The upsert loop and the id map\<close>

lemma jsOr_JStr: "jsOr (JStr s) (JStr []) = JStr s"
  by (simp add: jsOr_def)

lemma jsOr_JBool: "jsOr (JBool b) (JStr []) = (if b then JBool True else JStr [])"
  by (simp add: jsOr_def)

lemma strictNeq_JStr: "strictNeq (JStr a) (JStr b) = (a \<noteq> b)"
  by simp

lemma strictNeq_featured:
  "strictNeq (jsOr (JBool a) (JStr [])) (jsOr (JBool b) (JStr [])) = (a \<noteq> b)"
  by (cases a; cases b) (simp_all add: jsOr_def)

lemma getField_compared:
  "getField b ''title'' = JStr (title b)"
  "getField b ''excerpt'' = JStr (excerpt b)"
  "getField b ''content'' = JStr (content b)"
  "getField b ''blogURL'' = JStr (blogURL b)"
  "getField b ''authorName'' = JStr (authorName b)"
  "getField b ''authorBio'' = JStr (authorBio b)"
  "getField b ''authorAvatar'' = JStr (authorAvatar b)"
  "getField b ''image'' = JStr (image' b)"
  "getField b ''readTime'' = JStr (readTime b)"
  "getField b ''featured'' = JBool (featured b)"
  "getField b ''status'' = JStr (status b)"
  "getField b ''category'' = JStr (category b)"
  "getField b ''date'' = JStr (date b)"
  by (simp_all add: getField_def)

text \<open>The diff is field equality on the thirteen compared fields; the tags are not among them.\<close>

lemma hasBlogChanged_iff:
  "hasBlogChanged e x \<longleftrightarrow>
     (title e \<noteq> title x \<or> excerpt e \<noteq> excerpt x \<or> content e \<noteq> content x
      \<or> blogURL e \<noteq> blogURL x \<or> authorName e \<noteq> authorName x \<or> authorBio e \<noteq> authorBio x
      \<or> authorAvatar e \<noteq> authorAvatar x \<or> image' e \<noteq> image' x \<or> readTime e \<noteq> readTime x
      \<or> featured e \<noteq> featured x \<or> status e \<noteq> status x \<or> category e \<noteq> category x
      \<or> date e \<noteq> date x)"
  unfolding hasBlogChanged_def fieldsToCompare_def
  by (simp add: getField_compared jsOr_JStr strictNeq_featured)

lemma upsertStep_unchanged:
  "showInt (id' x) \<in> ids \<Longrightarrow> m (showInt (id' x)) = Some (e, r) \<Longrightarrow> \<not> hasBlogChanged e x
   \<Longrightarrow> upsertStep clk ids m (j, x) acc = acc"
  by (cases acc) (simp add: upsertStep_def)

lemma upsertStep_changed:
  "showInt (id' x) \<in> ids \<Longrightarrow> m (showInt (id' x)) = Some (e, r) \<Longrightarrow> hasBlogChanged e x
   \<Longrightarrow> upsertStep clk ids m (j, x) (N, U)
       = (N, U @ [(x\<lparr>updatedAt := clk (ChangedUpdatedAt j)\<rparr>, r)])"
  by (simp add: upsertStep_def)

lemma upsertStep_new:
  "showInt (id' x) \<notin> ids
   \<Longrightarrow> upsertStep clk ids m (j, x) (N, U)
       = (N @ [x\<lparr>createdAt := (if createdAt x = [] then clk (NewCreatedAt j) else createdAt x),
                  updatedAt := clk (NewUpdatedAt j)\<rparr>], U)"
  by (simp add: upsertStep_def)



text \<open>The id map: what a key is bound to.\<close>

lemma setEntry_apply: "setEntry (i, b) m = m(showInt (id' b) \<mapsto> (b, i + 2))"
  by (simp add: setEntry_def)

lemma idmap_fold_defined:
  "m0 k \<noteq> None \<or> (\<exists>b \<in> set bs. showInt (id' b) = k) \<Longrightarrow>
   fold setEntry (enumerate n bs) m0 k \<noteq> None"
proof (induction bs arbitrary: n m0)
  case Nil
  then show ?case by simp
next
  case (Cons b bs)
  have "(setEntry (n, b) m0) k \<noteq> None \<or> (\<exists>b \<in> set bs. showInt (id' b) = k)"
    using Cons.prems by (auto simp: setEntry_apply)
  then have "fold setEntry (enumerate (Suc n) bs) (setEntry (n, b) m0) k \<noteq> None"
    by (rule Cons.IH [of "setEntry (n, b) m0" "Suc n"])
  then show ?case by simp
qed

lemma idmap_fold_Some:
  "fold setEntry (enumerate n bs) m0 k = Some (b, r)
   \<Longrightarrow> m0 k = Some (b, r) \<or> (\<exists>i < length bs. bs ! i = b \<and> showInt (id' b) = k \<and> r = n + i + 2)"
proof (induction bs arbitrary: n m0)
  case Nil
  then show ?case by simp
next
  case (Cons a bs)
  from Cons.prems have
    "fold setEntry (enumerate (Suc n) bs) (setEntry (n, a) m0) k = Some (b, r)"
    by simp
  then have "(setEntry (n, a) m0) k = Some (b, r)
      \<or> (\<exists>i<length bs. bs ! i = b \<and> showInt (id' b) = k \<and> r = Suc n + i + 2)"
    by (rule Cons.IH [of "Suc n" "setEntry (n, a) m0"])
  then show ?case
  proof
    assume "(setEntry (n, a) m0) k = Some (b, r)"
    then have "m0 k = Some (b, r) \<or> (a = b \<and> showInt (id' b) = k \<and> r = n + 2)"
      by (auto simp: setEntry_apply split: if_splits)
    then show ?thesis by auto
  next
    assume "\<exists>i<length bs. bs ! i = b \<and> showInt (id' b) = k \<and> r = Suc n + i + 2"
    then obtain i where "i < length bs" "bs ! i = b" "showInt (id' b) = k" "r = Suc n + i + 2"
      by blast
    then have "Suc i < length (a # bs) \<and> (a # bs) ! Suc i = b \<and> showInt (id' b) = k \<and> r = n + Suc i + 2"
      by simp
    then show ?thesis by blast
  qed
qed

lemma existingBlogMap_Some:
  "existingBlogMap bs k = Some (b, r) \<Longrightarrow>
   \<exists>i < length bs. bs ! i = b \<and> showInt (id' b) = k \<and> r = i + 2"
  using idmap_fold_Some [of 0 bs Map.empty k b r] by (simp add: existingBlogMap_def)

lemma existingBlogMap_defined:
  "k \<in> existingIds bs \<Longrightarrow> \<exists>b r. existingBlogMap bs k = Some (b, r)"
proof -
  assume "k \<in> existingIds bs"
  then have "\<exists>b \<in> set bs. showInt (id' b) = k" by (auto simp: existingIds_def)
  then have "existingBlogMap bs k \<noteq> None"
    unfolding existingBlogMap_def by (intro idmap_fold_defined) simp
  then show ?thesis by auto
qed

lemma existingIds_iff: "showInt i \<in> existingIds bs \<longleftrightarrow> (\<exists>b \<in> set bs. id' b = i)"
  by (auto simp: existingIds_def dest: showInt_inj)

text \<open>The stored record that the upsert compares an incoming record with.\<close>

lemma stored_record:
  assumes "\<exists>b \<in> set bs. id' b = id' x"
  obtains e r i where "existingBlogMap bs (showInt (id' x)) = Some (e, r)"
    "i < length bs" "bs ! i = e" "id' e = id' x" "r = i + 2"
proof -
  from assms have "showInt (id' x) \<in> existingIds bs" by (simp add: existingIds_iff)
  then obtain e r where m: "existingBlogMap bs (showInt (id' x)) = Some (e, r)"
    using existingBlogMap_defined by blast
  from existingBlogMap_Some [OF m] obtain i where
    "i < length bs" "bs ! i = e" "showInt (id' e) = showInt (id' x)" "r = i + 2" by blast
  with m that showInt_inj show ?thesis by blast
qed

section \<open>Upsert of a batch\<close>

lemma writeBlogToSheet_unfold:
  "writeBlogToSheet clk rows blogs =
     (let acc = fold (upsertStep clk (existingIds (readBlogFromSheet clk rows))
                        (existingBlogMap (readBlogFromSheet clk rows)))
                  (enumerate 0 blogs) ([], [])
      in (map (\<lambda>(blog, rowIndex). Update BLOG_SHEET_NAME rowIndex (blogToRow blog)) (snd acc)
            @ (if length (fst acc) > 0 then [Append BLOG_SHEET_NAME (map blogToRow (fst acc))] else []),
          \<lparr> success = True, updated = length (snd acc), added = length (fst acc) \<rparr>))"
  by (simp add: writeBlogToSheet_def Let_def split: prod.splits)

text \<open>
  C1. A batch of one unmodified existing record and one new record. Let \<open>e\<close> carry an
  id that is in the sheet, with every compared field equal to that of the stored record
  (of each stored record with this id, should the sheet hold several), and let \<open>n\<close>
  carry an id that is not in the sheet. Then, in either order of the batch, the result is
  \<open>updated = 0\<close>, \<open>added = 1\<close>, no row update is issued, and the only request is one
  append, of the row of \<open>n\<close>.
\<close>

theorem upsert_unmodified_and_new:
  fixes clk rows e n
  defines "existing \<equiv> readBlogFromSheet clk rows"
  assumes present: "\<exists>b \<in> set existing. id' b = id' e"
    and same: "\<forall>b \<in> set existing. id' b = id' e \<longrightarrow>
        title b = title e \<and> excerpt b = excerpt e \<and> content b = content e
        \<and> blogURL b = blogURL e \<and> authorName b = authorName e \<and> authorBio b = authorBio e
        \<and> authorAvatar b = authorAvatar e \<and> image' b = image' e \<and> readTime b = readTime e
        \<and> featured b = featured e \<and> status b = status e \<and> category b = category e
        \<and> date b = date e"
    and absent: "\<forall>b \<in> set existing. id' b \<noteq> id' n"
  shows "writeBlogToSheet clk rows [e, n] =
           ([Append BLOG_SHEET_NAME
               [blogToRow (n\<lparr>createdAt := (if createdAt n = [] then clk (NewCreatedAt 1)
                                             else createdAt n),
                              updatedAt := clk (NewUpdatedAt 1)\<rparr>)]],
            \<lparr> success = True, updated = 0, added = 1 \<rparr>)
       \<and> writeBlogToSheet clk rows [n, e] =
           ([Append BLOG_SHEET_NAME
               [blogToRow (n\<lparr>createdAt := (if createdAt n = [] then clk (NewCreatedAt 0)
                                             else createdAt n),
                              updatedAt := clk (NewUpdatedAt 0)\<rparr>)]],
            \<lparr> success = True, updated = 0, added = 1 \<rparr>)"
proof -
  let ?ids = "existingIds existing" and ?m = "existingBlogMap existing"
  from present obtain s r i where m: "?m (showInt (id' e)) = Some (s, r)"
    and i: "i < length existing" "existing ! i = s" and ids: "id' s = id' e"
    by (rule stored_record)
  from i have "s \<in> set existing" by auto
  with same ids have unchanged: "\<not> hasBlogChanged s e"
    by (simp add: hasBlogChanged_iff)
  have e_in: "showInt (id' e) \<in> ?ids"
    using present by (simp add: existingIds_iff)
  have n_out: "showInt (id' n) \<notin> ?ids"
    using absent by (simp add: existingIds_iff)
  have step_e: "upsertStep clk ?ids ?m (j, e) acc = acc" for j acc
    using e_in m unchanged by (rule upsertStep_unchanged)
  have step_n: "upsertStep clk ?ids ?m (j, n) (N, U)
       = (N @ [n\<lparr>createdAt := (if createdAt n = [] then clk (NewCreatedAt j) else createdAt n),
                  updatedAt := clk (NewUpdatedAt j)\<rparr>], U)" for j N U
    using n_out by (rule upsertStep_new)
  show ?thesis
    unfolding writeBlogToSheet_unfold existing_def [symmetric]
    by (simp add: step_e step_n)
qed

lemma stringToNumber_1: "stringToNumber ''1'' = Some 1"
  by code_simp

lemma showInt_small: "showInt 1 = ''1''" "showInt 5 = ''5''" "showInt 2 = ''2''"
  by code_simp+

text \<open>The theorem on a sheet of one row, with the stored record and a record of id 5.\<close>

theorem upsert_unmodified_and_new_witness:
  "map id' (readBlogFromSheet (constClock ''2026-01-02T03:04:05.000Z'') [[''1'', ''A'', ''x'']]) = [1]
   \<and> writeBlogToSheet (constClock ''2026-01-02T03:04:05.000Z'') [[''1'', ''A'', ''x'']]
        [ \<lparr> id' = 1, title = ''A'', excerpt = ''x'', content = [], blogURL = [], authorName = [],
            authorBio = [], authorAvatar = [], tags = [], image' = [], readTime = [],
            featured = False, status = ''draft'', category = [], date = ''2026-01-02'',
            createdAt = ''2025-12-31T00:00:00.000Z'', updatedAt = ''2025-12-31T00:00:00.000Z'' \<rparr>,
          \<lparr> id' = 5, title = ''N'', excerpt = [], content = [], blogURL = [], authorName = [],
            authorBio = [], authorAvatar = [], tags = [''a'', ''b''], image' = [], readTime = [],
            featured = True, status = ''published'', category = [], date = ''2026-01-01'',
            createdAt = [], updatedAt = [] \<rparr> ]
      = ([Append ''blog''
            [[''5'', ''N'', [], [], [], [], [], [], ''a, b'', [], [], ''true'', ''published'', [],
              ''2026-01-01'', ''2026-01-02T03:04:05.000Z'', ''2026-01-02T03:04:05.000Z'']]],
         \<lparr> success = True, updated = 0, added = 1 \<rparr>)"
proof -
  let ?c = "constClock ''2026-01-02T03:04:05.000Z''"
  let ?rows = "[[''1'', ''A'', ''x'']]"
  let ?e = "\<lparr> id' = 1, title = ''A'', excerpt = ''x'', content = [], blogURL = [], authorName = [],
            authorBio = [], authorAvatar = [], tags = [], image' = [], readTime = [],
            featured = False, status = ''draft'', category = [], date = ''2026-01-02'',
            createdAt = ''2025-12-31T00:00:00.000Z'', updatedAt = ''2025-12-31T00:00:00.000Z'' \<rparr>"
  let ?n = "\<lparr> id' = 5, title = ''N'', excerpt = [], content = [], blogURL = [], authorName = [],
            authorBio = [], authorAvatar = [], tags = [''a'', ''b''], image' = [], readTime = [],
            featured = True, status = ''published'', category = [], date = ''2026-01-01'',
            createdAt = [], updatedAt = [] \<rparr>"
  have ex: "readBlogFromSheet ?c ?rows =
      [\<lparr> id' = 1, title = ''A'', excerpt = ''x'', content = [], blogURL = [], authorName = [],
            authorBio = [], authorAvatar = [], tags = [], image' = [], readTime = [],
            featured = False, status = ''draft'', category = [], date = ''2026-01-02'',
            createdAt = ''2026-01-02T03:04:05.000Z'', updatedAt = ''2026-01-02T03:04:05.000Z'' \<rparr>]"
    by code_simp
  have h1: "\<exists>b \<in> set (readBlogFromSheet ?c ?rows). id' b = id' ?e"
    unfolding ex by simp
  have h2: "\<forall>b \<in> set (readBlogFromSheet ?c ?rows). id' b = id' ?e \<longrightarrow>
        title b = title ?e \<and> excerpt b = excerpt ?e \<and> content b = content ?e
        \<and> blogURL b = blogURL ?e \<and> authorName b = authorName ?e \<and> authorBio b = authorBio ?e
        \<and> authorAvatar b = authorAvatar ?e \<and> image' b = image' ?e \<and> readTime b = readTime ?e
        \<and> featured b = featured ?e \<and> status b = status ?e \<and> category b = category ?e
        \<and> date b = date ?e"
    unfolding ex by simp
  have h3: "\<forall>b \<in> set (readBlogFromSheet ?c ?rows). id' b \<noteq> id' ?n"
    unfolding ex by simp
  have row: "blogToRow (?n\<lparr>createdAt := (if createdAt ?n = [] then ?c (NewCreatedAt 1) else createdAt ?n),
                updatedAt := ?c (NewUpdatedAt 1)\<rparr>)
      = [''5'', ''N'', [], [], [], [], [], [], ''a, b'', [], [], ''true'', ''published'', [],
              ''2026-01-01'', ''2026-01-02T03:04:05.000Z'', ''2026-01-02T03:04:05.000Z'']"
    by (simp add: blogToRow_def showInt_small)
  from upsert_unmodified_and_new [OF h1 h2 h3]
  have "writeBlogToSheet ?c ?rows [?e, ?n] =
           ([Append BLOG_SHEET_NAME
               [blogToRow (?n\<lparr>createdAt := (if createdAt ?n = [] then ?c (NewCreatedAt 1)
                                             else createdAt ?n),
                              updatedAt := ?c (NewUpdatedAt 1)\<rparr>)]],
            \<lparr> success = True, updated = 0, added = 1 \<rparr>)"
    by (rule conjunct1)
  then show ?thesis
    unfolding row by (simp add: ex BLOG_SHEET_NAME_def)
qed

lemma readBlogFromSheet_skip: "readBlogFromSheet (clk \<circ> skipPosition k) rows = readBlogFromSheet clk rows"
  by (simp add: readBlogFromSheet_def rowToBlog_def)

lemma upsertStep_clock_cong:
  assumes "clk (ChangedUpdatedAt a) = clk' (ChangedUpdatedAt b)"
    "clk (NewCreatedAt a) = clk' (NewCreatedAt b)" "clk (NewUpdatedAt a) = clk' (NewUpdatedAt b)"
  shows "upsertStep clk ids m (a, x) acc = upsertStep clk' ids m (b, x) acc"
  using assms by (cases acc) (simp add: upsertStep_def Let_def split: option.splits)

lemma fold_upsertStep_shift:
  assumes "\<And>j. j < length xs \<Longrightarrow>
      clk (ChangedUpdatedAt (a + j)) = clk' (ChangedUpdatedAt (b + j))
      \<and> clk (NewCreatedAt (a + j)) = clk' (NewCreatedAt (b + j))
      \<and> clk (NewUpdatedAt (a + j)) = clk' (NewUpdatedAt (b + j))"
  shows "fold (upsertStep clk ids m) (enumerate a xs) acc
       = fold (upsertStep clk' ids m) (enumerate b xs) acc"
  using assms
proof (induction xs arbitrary: a b acc)
  case Nil
  then show ?case by simp
next
  case (Cons x xs)
  have hd: "upsertStep clk ids m (a, x) acc = upsertStep clk' ids m (b, x) acc"
    using Cons.prems [of 0] by (intro upsertStep_clock_cong) simp_all
  have tl: "fold (upsertStep clk ids m) (enumerate (Suc a) xs) acc'
       = fold (upsertStep clk' ids m) (enumerate (Suc b) xs) acc'" for acc'
  proof (rule Cons.IH)
    fix j assume "j < length xs"
    then show "clk (ChangedUpdatedAt (Suc a + j)) = clk' (ChangedUpdatedAt (Suc b + j))
      \<and> clk (NewCreatedAt (Suc a + j)) = clk' (NewCreatedAt (Suc b + j))
      \<and> clk (NewUpdatedAt (Suc a + j)) = clk' (NewUpdatedAt (Suc b + j))"
      using Cons.prems [of "Suc j"] by simp
  qed
  show ?case by (simp add: hd tl)
qed

lemma tags_update_unchanged: "x = b\<lparr>tags := t\<rparr> \<Longrightarrow> \<not> hasBlogChanged b x"
  by (simp add: hasBlogChanged_iff)

text \<open>
  C9. A record that differs from the stored record only in its tags. Let \<open>x\<close> carry an
  id that is in the sheet and equal the stored record (each stored record with this id)
  but for the tags. Then the diff finds no change; the loop body leaves \<open>newBlogs\<close> and
  \<open>updatedBlogs\<close> as they are at \<open>x\<close>; and for every batch that holds \<open>x\<close>, the
  requests and the counts are those of the batch without \<open>x\<close>: no row update is
  issued for it and it is counted in neither \<open>updated\<close> nor \<open>added\<close>.
\<close>

theorem tags_only_change_ignored:
  fixes clk rows x
  defines "existing \<equiv> readBlogFromSheet clk rows"
  assumes present: "\<exists>b \<in> set existing. id' b = id' x"
    and same: "\<forall>b \<in> set existing. id' b = id' x \<longrightarrow> x = b\<lparr>tags := tags x\<rparr>"
  shows "(\<forall>b \<in> set existing. id' b = id' x \<longrightarrow> \<not> hasBlogChanged b x)
       \<and> upsertStep clk (existingIds existing) (existingBlogMap existing) (j, x) acc = acc
       \<and> writeBlogToSheet clk rows (pre @ x # post)
           = writeBlogToSheet (clk \<circ> skipPosition (length pre)) rows (pre @ post)
       \<and> writeBlogToSheet clk rows [x] = ([], \<lparr> success = True, updated = 0, added = 0 \<rparr>)"
proof -
  let ?ids = "existingIds existing" and ?m = "existingBlogMap existing"
  have diff: "\<not> hasBlogChanged b x" if "b \<in> set existing" "id' b = id' x" for b
  proof -
    from same that have "x = b\<lparr>tags := tags x\<rparr>" by blast
    then show ?thesis by (rule tags_update_unchanged)
  qed
  from present obtain s r i where m: "?m (showInt (id' x)) = Some (s, r)"
    and i: "i < length existing" "existing ! i = s" and ids: "id' s = id' x"
    by (rule stored_record)
  from i have "s \<in> set existing" by auto
  then have unchanged: "\<not> hasBlogChanged s x" using ids by (rule diff)
  have x_in: "showInt (id' x) \<in> ?ids"
    using present by (simp add: existingIds_iff)
  have step: "upsertStep clk ?ids ?m (k, x) a = a" for k a
    using x_in m unchanged by (rule upsertStep_unchanged)
  let ?clk' = "clk \<circ> skipPosition (length pre)"
  have before: "fold (upsertStep clk ?ids ?m) (enumerate 0 pre) a
      = fold (upsertStep ?clk' ?ids ?m) (enumerate 0 pre) a" for a
    by (rule fold_upsertStep_shift) simp
  have after: "fold (upsertStep clk ?ids ?m) (enumerate (Suc (length pre)) post) a
      = fold (upsertStep ?clk' ?ids ?m) (enumerate (length pre) post) a" for a
    by (rule fold_upsertStep_shift) simp
  have folds: "fold (upsertStep clk ?ids ?m) (enumerate 0 (pre @ x # post)) a
      = fold (upsertStep ?clk' ?ids ?m) (enumerate 0 (pre @ post)) a" for a
    by (simp add: enumerate_append_eq step before after)
  have batch: "writeBlogToSheet clk rows (pre @ x # post) = writeBlogToSheet ?clk' rows (pre @ post)"
    unfolding writeBlogToSheet_unfold readBlogFromSheet_skip existing_def [symmetric]
    by (simp only: folds)
  have single: "writeBlogToSheet clk rows [x] = ([], \<lparr> success = True, updated = 0, added = 0 \<rparr>)"
    unfolding writeBlogToSheet_unfold existing_def [symmetric]
    by (simp add: step)
  from diff step batch single show ?thesis by blast
qed

text \<open>The theorem on a sheet of one row and the stored record with other tags.\<close>

theorem tags_only_change_ignored_witness:
  "readBlogFromSheet (constClock ''2026-01-02T03:04:05.000Z'') [[''1'', ''A'', ''x'', [], [], [], [], [], ''eco,ride'']]
     = [\<lparr> id' = 1, title = ''A'', excerpt = ''x'', content = [], blogURL = [], authorName = [],
          authorBio = [], authorAvatar = [], tags = [''eco'', ''ride''], image' = [], readTime = [],
          featured = False, status = ''draft'', category = [], date = ''2026-01-02'',
          createdAt = ''2026-01-02T03:04:05.000Z'', updatedAt = ''2026-01-02T03:04:05.000Z'' \<rparr>]
   \<and> writeBlogToSheet (constClock ''2026-01-02T03:04:05.000Z'') [[''1'', ''A'', ''x'', [], [], [], [], [], ''eco,ride'']]
        [ \<lparr> id' = 1, title = ''A'', excerpt = ''x'', content = [], blogURL = [], authorName = [],
            authorBio = [], authorAvatar = [], tags = [''trees''], image' = [], readTime = [],
            featured = False, status = ''draft'', category = [], date = ''2026-01-02'',
            createdAt = ''2026-01-02T03:04:05.000Z'', updatedAt = ''2026-01-02T03:04:05.000Z'' \<rparr> ]
      = ([], \<lparr> success = True, updated = 0, added = 0 \<rparr>)"
proof -
  let ?c = "constClock ''2026-01-02T03:04:05.000Z''"
  let ?rows = "[[''1'', ''A'', ''x'', [], [], [], [], [], ''eco,ride'']]"
  let ?x = "\<lparr> id' = 1, title = ''A'', excerpt = ''x'', content = [], blogURL = [], authorName = [],
            authorBio = [], authorAvatar = [], tags = [''trees''], image' = [], readTime = [],
            featured = False, status = ''draft'', category = [], date = ''2026-01-02'',
            createdAt = ''2026-01-02T03:04:05.000Z'', updatedAt = ''2026-01-02T03:04:05.000Z'' \<rparr>"
  have ex: "readBlogFromSheet ?c ?rows =
      [\<lparr> id' = 1, title = ''A'', excerpt = ''x'', content = [], blogURL = [], authorName = [],
          authorBio = [], authorAvatar = [], tags = [''eco'', ''ride''], image' = [], readTime = [],
          featured = False, status = ''draft'', category = [], date = ''2026-01-02'',
          createdAt = ''2026-01-02T03:04:05.000Z'', updatedAt = ''2026-01-02T03:04:05.000Z'' \<rparr>]"
    by code_simp
  have h1: "\<exists>b \<in> set (readBlogFromSheet ?c ?rows). id' b = id' ?x"
    unfolding ex by simp
  have h2: "\<forall>b \<in> set (readBlogFromSheet ?c ?rows). id' b = id' ?x \<longrightarrow> ?x = b\<lparr>tags := tags ?x\<rparr>"
    unfolding ex by simp
  from tags_only_change_ignored [OF h1 h2, of 0 "([], [])" "[]" "[]"]
  have "writeBlogToSheet ?c ?rows [?x] = ([], \<lparr> success = True, updated = 0, added = 0 \<rparr>)"
    by blast
  with ex show ?thesis by simp
qed

text \<open>
  C6. The sheet holds the one data row \<open>[''1'', ''A'', ''x'', ...]\<close>, with any further
  cells; \<open>stored\<close> is the record read from it (at any time, under any clock), and the
  request carries that record with the title changed to \<open>B\<close>. Then exactly one
  request is issued, the update of row 2, and no append; the result counts one update
  and no addition. In the written row the title cell is \<open>B\<close> and the cell of
  \<open>updatedAt\<close> is the reading of the clock; every other cell, the one of
  \<open>createdAt\<close> among them, is the cell of the stored record; and the \<open>updatedAt\<close>
  cell differs from the stored one whenever the reading of the clock does.
\<close>

theorem title_update_one_row:
  fixes clk clk0 rest
  defines "r \<equiv> ''1'' # ''A'' # ''x'' # rest"
  defines "stored \<equiv> rowToBlog clk0 0 r"
  defines "written \<equiv> blogToRow (stored\<lparr>title := ''B'', updatedAt := clk (ChangedUpdatedAt 0)\<rparr>)"
  shows "writeBlogToSheet clk [r] [stored\<lparr>title := ''B''\<rparr>]
           = ([Update BLOG_SHEET_NAME 2 written], \<lparr> success = True, updated = 1, added = 0 \<rparr>)
       \<and> written ! 1 = ''B''
       \<and> written ! 16 = clk (ChangedUpdatedAt 0)
       \<and> written ! 15 = createdAt stored
       \<and> (\<forall>k < 17. k \<noteq> 1 \<and> k \<noteq> 16 \<longrightarrow> written ! k = blogToRow stored ! k)
       \<and> (clk (ChangedUpdatedAt 0) \<noteq> updatedAt stored \<longrightarrow> written ! 16 \<noteq> blogToRow stored ! 16)"
proof -
  let ?x = "stored\<lparr>title := ''B''\<rparr>"
  let ?e = "rowToBlog clk 0 r"
  have one: "stringToNumber ''1'' = Some 1" by code_simp
  have id_e: "id' ?e = 1" and id_x: "id' ?x = 1"
    by (simp_all add: stored_def r_def rowToBlog_def cell_def toNumber_def one)
  have title_e: "title ?e = ''A''"
    by (simp add: r_def rowToBlog_def cell_def orElse_def)
  have ex: "readBlogFromSheet clk [r] = [?e]"
    by (simp add: readBlogFromSheet_def)
  have ids: "showInt (id' ?x) \<in> existingIds [?e]"
    by (simp add: existingIds_def id_e id_x)
  have m: "existingBlogMap [?e] (showInt (id' ?x)) = Some (?e, 2)"
    by (simp add: existingBlogMap_def setEntry_apply id_e id_x)
  have ch: "hasBlogChanged ?e ?x"
    by (simp add: hasBlogChanged_iff title_e)
  have step: "upsertStep clk (existingIds [?e]) (existingBlogMap [?e]) (0, ?x) ([], [])
      = ([], [(?x\<lparr>updatedAt := clk (ChangedUpdatedAt 0)\<rparr>, 2)])"
    using ids m ch by (rule upsertStep_changed [where N = "[]" and U = "[]", simplified])
  have req: "writeBlogToSheet clk [r] [?x]
           = ([Update BLOG_SHEET_NAME 2 written], \<lparr> success = True, updated = 1, added = 0 \<rparr>)"
    unfolding writeBlogToSheet_unfold ex
    by (simp add: step written_def)
  have upd: "written = (blogToRow stored)[1 := ''B'', 16 := clk (ChangedUpdatedAt 0)]"
    by (simp add: written_def blogToRow_def)
  have len: "length (blogToRow stored) = 17"
    by (simp add: blogToRow_def)
  have c15: "blogToRow stored ! 15 = createdAt stored" and c16: "blogToRow stored ! 16 = updatedAt stored"
    by (simp_all add: blogToRow_def)
  have frame: "\<forall>k < 17. k \<noteq> 1 \<and> k \<noteq> 16 \<longrightarrow> written ! k = blogToRow stored ! k"
    unfolding upd by (simp add: len)
  have w1: "written ! 1 = ''B''" and w16: "written ! 16 = clk (ChangedUpdatedAt 0)"
    unfolding upd by (simp_all add: len)
  have w15: "written ! 15 = createdAt stored"
    using frame c15 by simp
  from req w1 w16 w15 frame c16 show ?thesis by simp
qed

text \<open>The theorem at a full row of seventeen cells, read earlier under another clock.\<close>

theorem title_update_one_row_witness:
  "rowToBlog (constClock ''2026-01-01T00:00:00.000Z'') 0
      [''1'', ''A'', ''x'', [], [], [], [], [], ''eco'', [], [], ''true'', ''published'', ''c'',
       ''2025-12-01'', ''2025-12-01T10:00:00.000Z'', ''2025-12-02T10:00:00.000Z'']
     = \<lparr> id' = 1, title = ''A'', excerpt = ''x'', content = [], blogURL = [], authorName = [],
         authorBio = [], authorAvatar = [], tags = [''eco''], image' = [], readTime = [],
         featured = True, status = ''published'', category = ''c'', date = ''2025-12-01'',
         createdAt = ''2025-12-01T10:00:00.000Z'', updatedAt = ''2025-12-02T10:00:00.000Z'' \<rparr>
   \<and> writeBlogToSheet (constClock ''2026-01-02T03:04:05.000Z'')
        [[''1'', ''A'', ''x'', [], [], [], [], [], ''eco'', [], [], ''true'', ''published'', ''c'',
          ''2025-12-01'', ''2025-12-01T10:00:00.000Z'', ''2025-12-02T10:00:00.000Z'']]
        [\<lparr> id' = 1, title = ''B'', excerpt = ''x'', content = [], blogURL = [], authorName = [],
           authorBio = [], authorAvatar = [], tags = [''eco''], image' = [], readTime = [],
           featured = True, status = ''published'', category = ''c'', date = ''2025-12-01'',
           createdAt = ''2025-12-01T10:00:00.000Z'', updatedAt = ''2025-12-02T10:00:00.000Z'' \<rparr>]
     = ([Update ''blog'' 2
           [''1'', ''B'', ''x'', [], [], [], [], [], ''eco'', [], [], ''true'', ''published'', ''c'',
            ''2025-12-01'', ''2025-12-01T10:00:00.000Z'', ''2026-01-02T03:04:05.000Z'']],
        \<lparr> success = True, updated = 1, added = 0 \<rparr>)
   \<and> ''2026-01-02T03:04:05.000Z'' \<noteq> ''2025-12-02T10:00:00.000Z''"
proof -
  let ?before = "constClock ''2026-01-01T00:00:00.000Z''"
  let ?c = "constClock ''2026-01-02T03:04:05.000Z''"
  let ?rest = "[[], [], [], [], [], ''eco'', [], [], ''true'', ''published'', ''c'',
       ''2025-12-01'', ''2025-12-01T10:00:00.000Z'', ''2025-12-02T10:00:00.000Z'']"
  let ?stored = "\<lparr> id' = 1, title = ''A'', excerpt = ''x'', content = [], blogURL = [], authorName = [],
         authorBio = [], authorAvatar = [], tags = [''eco''], image' = [], readTime = [],
         featured = True, status = ''published'', category = ''c'', date = ''2025-12-01'',
         createdAt = ''2025-12-01T10:00:00.000Z'', updatedAt = ''2025-12-02T10:00:00.000Z'' \<rparr>"
  have st: "rowToBlog ?before 0 (''1'' # ''A'' # ''x'' # ?rest) = ?stored"
    by code_simp
  have one: "showInt 1 = ''1''" by code_simp
  have w: "blogToRow (?stored\<lparr>title := ''B'', updatedAt := ?c (ChangedUpdatedAt 0)\<rparr>)
       = [''1'', ''B'', ''x'', [], [], [], [], [], ''eco'', [], [], ''true'', ''published'', ''c'',
            ''2025-12-01'', ''2025-12-01T10:00:00.000Z'', ''2026-01-02T03:04:05.000Z'']"
    by (simp add: blogToRow_def one)
  from title_update_one_row [of ?c ?rest ?before]
  have "writeBlogToSheet ?c [''1'' # ''A'' # ''x'' # ?rest] [?stored\<lparr>title := ''B''\<rparr>]
      = ([Update BLOG_SHEET_NAME 2 (blogToRow (?stored\<lparr>title := ''B'', updatedAt := ?c (ChangedUpdatedAt 0)\<rparr>))],
         \<lparr> success = True, updated = 1, added = 0 \<rparr>)"
    unfolding st by (rule conjunct1)
  then have m: "writeBlogToSheet ?c [''1'' # ''A'' # ''x'' # ?rest] [?stored\<lparr>title := ''B''\<rparr>]
      = ([Update ''blog'' 2
           [''1'', ''B'', ''x'', [], [], [], [], [], ''eco'', [], [], ''true'', ''published'', ''c'',
            ''2025-12-01'', ''2025-12-01T10:00:00.000Z'', ''2026-01-02T03:04:05.000Z'']],
         \<lparr> success = True, updated = 1, added = 0 \<rparr>)"
    unfolding w BLOG_SHEET_NAME_def .
  have ne: "''2026-01-02T03:04:05.000Z'' \<noteq> ''2025-12-02T10:00:00.000Z''" by simp
  from m have m': "writeBlogToSheet ?c [''1'' # ''A'' # ''x'' # ?rest]
        [\<lparr> id' = 1, title = ''B'', excerpt = ''x'', content = [], blogURL = [], authorName = [],
           authorBio = [], authorAvatar = [], tags = [''eco''], image' = [], readTime = [],
           featured = True, status = ''published'', category = ''c'', date = ''2025-12-01'',
           createdAt = ''2025-12-01T10:00:00.000Z'', updatedAt = ''2025-12-02T10:00:00.000Z'' \<rparr>]
      = ([Update ''blog'' 2
           [''1'', ''B'', ''x'', [], [], [], [], [], ''eco'', [], [], ''true'', ''published'', ''c'',
            ''2025-12-01'', ''2025-12-01T10:00:00.000Z'', ''2026-01-02T03:04:05.000Z'']],
         \<lparr> success = True, updated = 1, added = 0 \<rparr>)"
    by simp
  from st m' ne show ?thesis by blast
qed

section \<open>New and changed records\<close>
















section \<open>Deleting an id that is not there\<close>







section \<open>Inserting a title that is there\<close>



section \<open>The ids of listed records\<close>

















section \<open>The rotation of the banner\<close>








section \<open>Updating a drive\<close>




end
